theory Spec2Isabelle
  imports Complex_Main
begin

section \<open>The QAOA exercise notebook\<close>

text \<open>
  The notebook \<^verbatim>\<open>day-3-community-day/pyQuil/QAOA -- Exercise.ipynb\<close> defines, one
  function per cell, \<^verbatim>\<open>apply_hadamards\<close>, \<^verbatim>\<open>pauli_sum\<close>, \<^verbatim>\<open>pauli_sum_maxcut\<close>,
  \<^verbatim>\<open>exponentiate_pauli_sum\<close>, \<^verbatim>\<open>run_qaoa\<close>, \<^verbatim>\<open>create_simple_two_node_graph\<close> and
  \<^verbatim>\<open>demo_optimize_angles\<close>. Exceptions are values of \<open>py_error\<close>; a call that raises
  returns \<open>Inl\<close> of the exception.
\<close>

datatype py_error =
    AssertionError string
  | TypeError string
  | NameError string
  | IndentationError nat

text \<open>A pyQuil instruction: a gate name and the qubits it acts on.\<close>

datatype instr = Gate string "nat list"

text \<open>
  A NetworkX graph as the notebook reads it: \<^verbatim>\<open>graph.nodes\<close>, and \<^verbatim>\<open>graph.adj\<close>, which
  maps a node to its neighbours and each neighbour to the weight of the edge.
\<close>

record graph =
  nodes :: "nat list"
  adj :: "(nat \<times> (nat \<times> real) list) list"

datatype pyval =
    PyNone
  | PyFloat real
  | PyList "nat list"
  | PyGraph graph
  | PyProgram "instr list"

type_synonym pyfun = "pyval list \<Rightarrow> py_error + pyval"

type_synonym namespace = "string \<rightharpoonup> pyfun"

subsection \<open>The source text of the helper cells\<close>

definition triple_quote :: string where
  "triple_quote = [CHR 0x27, CHR 0x27, CHR 0x27]"

definition apply_hadamards_src :: "string list" where
  "apply_hadamards_src =
   [''def apply_hadamards(L):'',
    ''    '' @ triple_quote,
    ''    Apply global Hadamard across all qubits contained in input list'',
    '''',
    ''    :param L list: list of qubits'',
    ''    :return Program: pyQuil Program object applying the Hadamard gate to all input qubits'',
    ''    '' @ triple_quote,
    ''    # TODO'']"

definition pauli_sum_src :: "string list" where
  "pauli_sum_src =
   [''def pauli_sum(L):'',
    ''    '' @ triple_quote,
    ''    Create a sum of Pauli-X operators over the qubits contained in the input list'',
    '''',
    ''    :param L list: list of qubits'',
    ''    :return PauliSum: PauliSum of Pauli-X operators on the input qubits'',
    ''    '' @ triple_quote,
    ''    # TODO'']"

definition pauli_sum_maxcut_src :: "string list" where
  "pauli_sum_maxcut_src =
   [''def pauli_sum_maxcut(graph):'',
    ''    '' @ triple_quote,
    ''    Create a PauliSum corresponding to the MaxCut cost function'',
    '''',
    ''    :param graph Graph: NetworkX Graph object'',
    ''    :return PauliSum: PauliSum object corresponding to MaxCut cost/objective function'',
    ''    '' @ triple_quote,
    ''    paulisum = 0'',
    ''    # graph.adj is a dict with key: node, value: neighbors dict'',
    ''    for i, nbrs in graph.adj.items():'',
    ''        # nbrs is a dict itself with key: neighboring node, value: edge attributes dict'',
    ''        # the weight of the edge can be extracted from eattr['weight']'',
    ''        for j, eattr in nbrs.items():'',
    ''            # add up contribution from current edge to paulisum'',
    ''            # TODO'',
    '''',
    ''    paulisum *= 0.5'',
    ''    return paulisum'']"

definition exponentiate_pauli_sum_src :: "string list" where
  "exponentiate_pauli_sum_src =
   [''def exponentiate_pauli_sum(paulisum, angle):'',
    ''    '' @ triple_quote,
    ''    Exponentiate a sum of Pauli operators to produce a unitary map'',
    '''',
    ''    :param paulisum PauliSum: PauliSum object containing the sum of Pauli operators'',
    ''    :param angle float: specifying the coefficient of the paulisum in the exponential, with the convention'',
    ''            e ^ (-i * angle * paulisum)'',
    ''    :return Program: pyQuil Program applying the exponentiated map'',
    ''    '' @ triple_quote,
    ''    # TODO'']"

subsection \<open>Python's block structure\<close>

text \<open>
  What Python does with a cell before running it, as far as the notebook needs it: the
  physical lines are grouped into logical lines (blank lines and comment lines are
  skipped, the lines of a triple-quoted string belong to the logical line that opens
  it), and the logical line after a header (a line that ends in a colon) must be
  indented deeper than the header. Otherwise the cell is rejected with
  \<^verbatim>\<open>IndentationError: expected an indented block\<close> at that line, and nothing of the
  cell is executed.
\<close>

definition leading_spaces :: "string \<Rightarrow> nat" where
  "leading_spaces s = length (takeWhile (\<lambda>c. c = CHR '' '') s)"

definition stripped :: "string \<Rightarrow> string" where
  "stripped s =
     rev (dropWhile (\<lambda>c. c = CHR '' '') (rev (dropWhile (\<lambda>c. c = CHR '' '') s)))"

fun count_triple_quotes :: "string \<Rightarrow> nat" where
  "count_triple_quotes (a # b # c # s) =
     (if a = CHR 0x27 \<and> b = CHR 0x27 \<and> c = CHR 0x27
      then Suc (count_triple_quotes s)
      else count_triple_quotes (b # c # s))"
| "count_triple_quotes s = 0"

text \<open>
  A logical line is its line number (from 1), its indentation and whether it is a
  header. The flag \<open>in_str\<close> says that the previous line ended inside a triple-quoted
  string.
\<close>

type_synonym logical_line = "nat \<times> nat \<times> bool"

fun logical_lines :: "nat \<Rightarrow> bool \<Rightarrow> string list \<Rightarrow> logical_line list" where
  "logical_lines n in_str [] = []"
| "logical_lines n in_str (l # ls) =
     (if in_str then logical_lines (Suc n) (even (count_triple_quotes l)) ls
      else if stripped l = [] then logical_lines (Suc n) False ls
      else if hd (stripped l) = CHR ''#'' then logical_lines (Suc n) False ls
      else (n, leading_spaces l,
              even (count_triple_quotes l) \<and> last (stripped l) = CHR '':'')
           # logical_lines (Suc n) (odd (count_triple_quotes l)) ls)"

fun expected_indented_block :: "logical_line list \<Rightarrow> nat option" where
  "expected_indented_block [] = None"
| "expected_indented_block [(n, i, header)] = (if header then Some (Suc n) else None)"
| "expected_indented_block ((n, i, header) # (m, j, h) # rest) =
     (if header \<and> j \<le> i then Some m
      else expected_indented_block ((m, j, h) # rest))"

definition check_indentation :: "string list \<Rightarrow> nat option" where
  "check_indentation src = expected_indented_block (logical_lines 1 False src)"

subsection \<open>Running a cell, calling a name\<close>

text \<open>
  Running a cell that holds one \<^verbatim>\<open>def\<close> binds the name to the function, unless the
  cell is rejected: then the exception is shown and the namespace is unchanged.
  Calling a name that is not bound raises \<^verbatim>\<open>NameError\<close>.
\<close>

definition exec_def_cell ::
  "string \<Rightarrow> string list \<Rightarrow> pyfun \<Rightarrow> namespace \<Rightarrow> py_error option \<times> namespace" where
  "exec_def_cell name src f ns =
     (case check_indentation src of
        Some line \<Rightarrow> (Some (IndentationError line), ns)
      | None \<Rightarrow> (None, ns(name \<mapsto> f)))"

definition invoke :: "namespace \<Rightarrow> string \<Rightarrow> pyfun" where
  "invoke ns name args =
     (case ns name of
        None \<Rightarrow> Inl (NameError name)
      | Some f \<Rightarrow> f args)"

text \<open>
  The three helpers whose body is a docstring and the comment \<^verbatim>\<open># TODO\<close>: such a
  function returns \<^verbatim>\<open>None\<close>.
\<close>

fun apply_hadamards :: pyfun where
  "apply_hadamards [L] = Inr PyNone"
| "apply_hadamards args = Inl (TypeError ''apply_hadamards() takes 1 positional argument'')"

fun pauli_sum :: pyfun where
  "pauli_sum [L] = Inr PyNone"
| "pauli_sum args = Inl (TypeError ''pauli_sum() takes 1 positional argument'')"

fun exponentiate_pauli_sum :: pyfun where
  "exponentiate_pauli_sum [paulisum, angle] = Inr PyNone"
| "exponentiate_pauli_sum args =
     Inl (TypeError ''exponentiate_pauli_sum() takes 2 positional arguments'')"

text \<open>
  The helper cells in the order of the file, run one after the other from the
  namespace \<open>ns\<close>. The body of \<^verbatim>\<open>pauli_sum_maxcut\<close> is the parameter \<open>body\<close>: what the
  function would compute if its cell were accepted.
\<close>

definition run_helper_cells :: "pyfun \<Rightarrow> namespace \<Rightarrow> namespace" where
  "run_helper_cells body ns =
     snd (exec_def_cell ''exponentiate_pauli_sum'' exponentiate_pauli_sum_src exponentiate_pauli_sum
       (snd (exec_def_cell ''pauli_sum_maxcut'' pauli_sum_maxcut_src body
         (snd (exec_def_cell ''pauli_sum'' pauli_sum_src pauli_sum
           (snd (exec_def_cell ''apply_hadamards'' apply_hadamards_src apply_hadamards ns)))))))"

subsection \<open>\<^verbatim>\<open>run_qaoa\<close>\<close>

text \<open>
  \<^verbatim>\<open>p += x\<close> on a pyQuil \<^verbatim>\<open>Program\<close>, as the traceback recorded in the notebook shows it:
  \<^verbatim>\<open>Program.__iadd__\<close> calls \<^verbatim>\<open>inst\<close>, which raises
  \<^verbatim>\<open>TypeError("Invalid instruction: None")\<close> for \<^verbatim>\<open>None\<close>. A program is appended, an
  empty list adds nothing, and any other value here is no instruction either.
\<close>

fun program_iadd :: "instr list \<Rightarrow> pyval \<Rightarrow> py_error + instr list" where
  "program_iadd p (PyProgram q) = Inr (p @ q)"
| "program_iadd p PyNone = Inl (TypeError ''Invalid instruction: None'')"
| "program_iadd p (PyList []) = Inr p"
| "program_iadd p v = Inl (TypeError ''Invalid instruction'')"

text \<open>
  \<^verbatim>\<open>run_qaoa(graph, beta, gamma)\<close>. The constant \<^verbatim>\<open>np.pi\<close> is the parameter \<open>np_pi\<close>; the
  angles are read as the real numbers they denote, which is what the comparisons
  compare. The \<^verbatim>\<open>assert\<close> statements are executed, as they are in a notebook. The
  helpers are looked up in the namespace when they are called. The second component
  counts the \<^verbatim>\<open>Program()\<close> objects that \<^verbatim>\<open>run_qaoa\<close> has constructed.
\<close>

definition run_qaoa ::
  "real \<Rightarrow> namespace \<Rightarrow> graph \<Rightarrow> real \<Rightarrow> real \<Rightarrow> (py_error + instr list) \<times> nat" where
  "run_qaoa np_pi ns graph beta gamma =
     (if \<not> (beta \<ge> - np_pi \<and> beta \<le> np_pi)
        then (Inl (AssertionError ''beta is not within the range [-pi, pi]''), 0)
      else if \<not> (gamma \<ge> 0 \<and> gamma \<le> 2 * np_pi)
        then (Inl (AssertionError ''gamma is not within the range [0, 2*pi]''), 0)
      else
        let list_qubits = nodes graph;
            p = []
        in (case invoke ns ''apply_hadamards'' [PyList list_qubits] of
              Inl e \<Rightarrow> Inl e
            | Inr h \<Rightarrow>
          (case program_iadd p h of
              Inl e \<Rightarrow> Inl e
            | Inr p1 \<Rightarrow>
          (case invoke ns ''pauli_sum_maxcut'' [PyGraph graph] of
              Inl e \<Rightarrow> Inl e
            | Inr paulisum_gamma \<Rightarrow>
          (case invoke ns ''exponentiate_pauli_sum'' [paulisum_gamma, PyFloat gamma] of
              Inl e \<Rightarrow> Inl e
            | Inr u \<Rightarrow>
          (case program_iadd p1 u of
              Inl e \<Rightarrow> Inl e
            | Inr p2 \<Rightarrow>
          (case invoke ns ''pauli_sum'' [PyList list_qubits] of
              Inl e \<Rightarrow> Inl e
            | Inr paulisum_beta \<Rightarrow>
          (case invoke ns ''exponentiate_pauli_sum'' [paulisum_beta, PyFloat beta] of
              Inl e \<Rightarrow> Inl e
            | Inr v \<Rightarrow>
          (case program_iadd p2 v of
              Inl e \<Rightarrow> Inl e
            | Inr p3 \<Rightarrow> Inr p3))))))), 1))"

section \<open>The Jordan-Wigner transform of the OpenFermion notebook\<close>

text \<open>
  The notebook \<^verbatim>\<open>open-fermion-checkpoint.ipynb\<close> calls \<^verbatim>\<open>of.FermionOperator\<close>,
  \<^verbatim>\<open>of.QubitOperator\<close> and \<^verbatim>\<open>of.jordan_wigner\<close> of the OpenFermion library and states in
  its text what the transform does: \<open>a\<^sub>p\<^sup>\<dagger> \<mapsto> \<^sup>1\<^sub>2 (X\<^sub>p - i Y\<^sub>p) Z\<^sub>0 \<cdots> Z\<^sub>p\<^sub>-\<^sub>1\<close>. The
  library itself is not among the repository's files. The definitions of this section
  follow the specification (its sections 3, 4.2, 4.4 and 4.5) and the notebook's text.
\<close>

text \<open>
  Modelled from the spec: the action alphabets of a term. A fermionic action is
  \<open>CREATE\<close> or \<open>ANNIHILATE\<close> (the notebook writes 1 and 0), a qubit action is one of the
  three Pauli operators.
\<close>

datatype ladder = ANNIHILATE | CREATE

datatype pauli = PAULI_X | PAULI_Y | PAULI_Z

text \<open>
  Modelled from the spec: a term is an ordered sequence of (site index, action) pairs,
  the empty sequence is the identity term; a qubit term holds every site at most once,
  in increasing order. A \<^verbatim>\<open>SymbolicOperator\<close> is a mapping from terms to complex
  coefficients, here the list of its entries, every term at most once.
\<close>

type_synonym fermion_term = "(nat \<times> ladder) list"

type_synonym qubit_term = "(nat \<times> pauli) list"

type_synonym 't operator = "('t \<times> complex) list"

text \<open>
  Modelled from the spec: the fixed numerical tolerance (\<open>1e-12\<close>); a coefficient whose
  magnitude is at most the tolerance is treated as zero. The test compares the squares,
  so that it can be evaluated.
\<close>

definition tolerance :: real where
  "tolerance = 1 / 10 ^ 12"

definition negligible :: "complex \<Rightarrow> bool" where
  "negligible c = ((Re c)\<^sup>2 + (Im c)\<^sup>2 \<le> tolerance\<^sup>2)"

definition prune :: "'t operator \<Rightarrow> 't operator" where
  "prune A = filter (\<lambda>(t, c). \<not> negligible c) A"

text \<open>
  Modelled from the spec: \<^verbatim>\<open>add(other)\<close> returns the union of both mappings, summing the
  coefficients of equal terms, then prunes the entries whose coefficient is zero within
  the tolerance.
\<close>

fun add_term :: "'t \<times> complex \<Rightarrow> 't operator \<Rightarrow> 't operator" where
  "add_term (t, c) [] = [(t, c)]"
| "add_term (t, c) ((u, d) # A) =
     (if u = t then (u, d + c) # A else (u, d) # add_term (t, c) A)"

definition add :: "'t operator \<Rightarrow> 't operator \<Rightarrow> 't operator" where
  "add A B = prune (fold add_term B A)"

text \<open>
  Modelled from the spec: the single-qubit Pauli product table, \<open>X\<cdot>X = Y\<cdot>Y = Z\<cdot>Z = I\<close>,
  \<open>X\<cdot>Y = iZ\<close>, \<open>Y\<cdot>Z = iX\<close>, \<open>Z\<cdot>X = iY\<close>, and the reverse products with the opposite
  sign. The result is the phase and the Pauli operator left, if any.
\<close>

fun pauli_product :: "pauli \<Rightarrow> pauli \<Rightarrow> complex \<times> pauli option" where
  "pauli_product PAULI_X PAULI_X = (1, None)"
| "pauli_product PAULI_Y PAULI_Y = (1, None)"
| "pauli_product PAULI_Z PAULI_Z = (1, None)"
| "pauli_product PAULI_X PAULI_Y = (\<i>, Some PAULI_Z)"
| "pauli_product PAULI_Y PAULI_Z = (\<i>, Some PAULI_X)"
| "pauli_product PAULI_Z PAULI_X = (\<i>, Some PAULI_Y)"
| "pauli_product PAULI_Y PAULI_X = (- \<i>, Some PAULI_Z)"
| "pauli_product PAULI_Z PAULI_Y = (- \<i>, Some PAULI_X)"
| "pauli_product PAULI_X PAULI_Z = (- \<i>, Some PAULI_Y)"

text \<open>
  Modelled from the spec: the simplification rule of the qubit alphabet. The factors of
  the concatenated sequence are taken from left to right; a factor on a site the term
  already holds is multiplied from the right with the factor there, by the product
  table; a factor on a new site is put at its place in the order of the sites. The
  result is one term, with the phases folded into the coefficient.
\<close>

fun insert_factor :: "nat \<times> pauli \<Rightarrow> complex \<times> qubit_term \<Rightarrow> complex \<times> qubit_term" where
  "insert_factor (p, b) (c, []) = (c, [(p, b)])"
| "insert_factor (p, b) (c, (q, a) # t) =
     (if p < q then (c, (p, b) # (q, a) # t)
      else if p = q then
        (case pauli_product a b of
           (phase, None) \<Rightarrow> (c * phase, t)
         | (phase, Some r) \<Rightarrow> (c * phase, (q, r) # t))
      else (case insert_factor (p, b) (c, t) of (c', t') \<Rightarrow> (c', (q, a) # t')))"

definition simplify :: "qubit_term \<Rightarrow> complex \<Rightarrow> qubit_term \<times> complex" where
  "simplify s c = (case fold insert_factor s (c, []) of (c', t) \<Rightarrow> (t, c'))"

text \<open>
  Modelled from the spec: \<^verbatim>\<open>multiply(other)\<close>, for qubit operators. For every pair of
  terms, one of each operand, the sequences are concatenated and the coefficients
  multiplied, the simplification rule is applied, and the result is accumulated with
  \<open>add\<close>.
\<close>

definition multiply ::
  "qubit_term operator \<Rightarrow> qubit_term operator \<Rightarrow> qubit_term operator" where
  "multiply A B =
     fold (\<lambda>(ta, ca) acc.
       fold (\<lambda>(tb, cb) acc. add acc [simplify (ta @ tb) (ca * cb)]) B acc) A []"

text \<open>
  Modelled from the spec: the Jordan-Wigner transform. The image of one factor on site
  \<open>p\<close> is \<open>\<^sup>1\<^sub>2 (X\<^sub>p \<mp> i Y\<^sub>p) \<cdot> Z\<^sub>0 Z\<^sub>1 \<cdots> Z\<^sub>p\<^sub>-\<^sub>1\<close>, with \<open>-\<close> for creation and \<open>+\<close> for
  annihilation. A term maps to the product of the images of its factors, from left to
  right, scaled by its coefficient; an operator maps to the sum over its terms.
\<close>

definition z_string :: "nat \<Rightarrow> qubit_term" where
  "z_string p = map (\<lambda>j. (j, PAULI_Z)) [0..<p]"

fun jordan_wigner_factor :: "nat \<times> ladder \<Rightarrow> qubit_term operator" where
  "jordan_wigner_factor (p, CREATE) =
     multiply [([(p, PAULI_X)], 1 / 2), ([(p, PAULI_Y)], - \<i> / 2)] [(z_string p, 1)]"
| "jordan_wigner_factor (p, ANNIHILATE) =
     multiply [([(p, PAULI_X)], 1 / 2), ([(p, PAULI_Y)], \<i> / 2)] [(z_string p, 1)]"

definition jordan_wigner_term :: "fermion_term \<Rightarrow> complex \<Rightarrow> qubit_term operator" where
  "jordan_wigner_term t c =
     fold (\<lambda>f acc. multiply acc (jordan_wigner_factor f)) t [([], c)]"

definition jordan_wigner :: "fermion_term operator \<Rightarrow> qubit_term operator" where
  "jordan_wigner A = fold (\<lambda>(t, c) acc. add acc (jordan_wigner_term t c)) A []"

section \<open>Properties of the QAOA notebook\<close>

lemma check_indentation_apply_hadamards: "check_indentation apply_hadamards_src = None"
  by (simp add: check_indentation_def apply_hadamards_src_def triple_quote_def
      stripped_def leading_spaces_def)

lemma check_indentation_pauli_sum: "check_indentation pauli_sum_src = None"
  by (simp add: check_indentation_def pauli_sum_src_def triple_quote_def
      stripped_def leading_spaces_def)

lemma check_indentation_exponentiate_pauli_sum:
  "check_indentation exponentiate_pauli_sum_src = None"
  by (simp add: check_indentation_def exponentiate_pauli_sum_src_def triple_quote_def
      stripped_def leading_spaces_def)

lemma check_indentation_pauli_sum_maxcut: "check_indentation pauli_sum_maxcut_src = Some 17"
  by (simp add: check_indentation_def pauli_sum_maxcut_src_def triple_quote_def
      stripped_def leading_spaces_def)

lemma run_helper_cells_maxcut_unbound:
  "ns ''pauli_sum_maxcut'' = None \<Longrightarrow> run_helper_cells body ns ''pauli_sum_maxcut'' = None"
  by (simp add: run_helper_cells_def exec_def_cell_def check_indentation_apply_hadamards
      check_indentation_pauli_sum check_indentation_exponentiate_pauli_sum
      check_indentation_pauli_sum_maxcut)

lemma run_helper_cells_apply_hadamards:
  "run_helper_cells body ns ''apply_hadamards'' = Some apply_hadamards"
  by (simp add: run_helper_cells_def exec_def_cell_def check_indentation_apply_hadamards
      check_indentation_pauli_sum check_indentation_exponentiate_pauli_sum
      check_indentation_pauli_sum_maxcut)

text \<open>
  C9. The cell of \<^verbatim>\<open>pauli_sum_maxcut\<close> has an inner \<^verbatim>\<open>for\<close> header (line 13) with no
  body: the next logical line is line 17, \<^verbatim>\<open>paulisum *= 0.5\<close>, which is not indented
  deeper. Python rejects the cell with \<^verbatim>\<open>IndentationError\<close> at line 17 (the error the
  notebook records), so the cell binds nothing. In a session where the name was not
  bound before, every call of \<^verbatim>\<open>pauli_sum_maxcut\<close>, with any arguments and whatever the
  body was meant to compute, raises \<^verbatim>\<open>NameError\<close>: none returns a value.
\<close>

theorem pauli_sum_maxcut_always_crashes:
  assumes "ns ''pauli_sum_maxcut'' = None"
  shows "check_indentation pauli_sum_maxcut_src = Some 17
       \<and> exec_def_cell ''pauli_sum_maxcut'' pauli_sum_maxcut_src body ns
           = (Some (IndentationError 17), ns)
       \<and> invoke (run_helper_cells body ns) ''pauli_sum_maxcut'' args
           = Inl (NameError ''pauli_sum_maxcut'')"
proof -
  have "run_helper_cells body ns ''pauli_sum_maxcut'' = None"
    using assms by (rule run_helper_cells_maxcut_unbound)
  then have "invoke (run_helper_cells body ns) ''pauli_sum_maxcut'' args
      = Inl (NameError ''pauli_sum_maxcut'')"
    by (simp add: invoke_def)
  then show ?thesis
    by (simp add: exec_def_cell_def check_indentation_pauli_sum_maxcut)
qed

theorem pauli_sum_maxcut_always_crashes_witness:
  "(Map.empty :: namespace) ''pauli_sum_maxcut'' = None
   \<and> invoke (run_helper_cells (\<lambda>args. Inr (PyFloat 0)) Map.empty) ''pauli_sum_maxcut''
        [PyGraph \<lparr>nodes = [0, 1], adj = [(0, [(1, 1)]), (1, [(0, 1)])]\<rparr>]
       = Inl (NameError ''pauli_sum_maxcut'')"
  using pauli_sum_maxcut_always_crashes
    [of Map.empty "\<lambda>args. Inr (PyFloat 0)"
        "[PyGraph \<lparr>nodes = [0, 1], adj = [(0, [(1, 1)]), (1, [(0, 1)])]\<rparr>]"]
  by simp

lemma run_qaoa_in_range:
  assumes "- np_pi \<le> beta" "beta \<le> np_pi" "0 \<le> gamma" "gamma \<le> 2 * np_pi"
  shows "snd (run_qaoa np_pi ns g beta gamma) = 1"
    and "run_qaoa np_pi (run_helper_cells body Map.empty) g beta gamma
          = (Inl (TypeError ''Invalid instruction: None''), 1)"
  using assms
  by (simp_all add: run_qaoa_def Let_def invoke_def run_helper_cells_apply_hadamards)

text \<open>
  C10. \<^verbatim>\<open>run_qaoa\<close> checks its angles first. If \<open>beta\<close> is below \<open>-pi\<close> or above \<open>pi\<close>,
  or \<open>gamma\<close> is below \<open>0\<close> or above \<open>2*pi\<close>, it raises \<^verbatim>\<open>AssertionError\<close> and has
  constructed no \<^verbatim>\<open>Program\<close>, whatever the graph and the namespace. For angles in
  range, the four boundary values included, both assertions pass and the \<^verbatim>\<open>Program\<close> is
  constructed; with the helper cells of the notebook the call then ends in the
  \<^verbatim>\<open>TypeError\<close> that the notebook records, not in an assertion. Here \<open>pi\<close> is the value of
  \<^verbatim>\<open>np.pi\<close>; that it is not negative is needed for the boundary values only.
\<close>

theorem run_qaoa_angle_assertions:
  "(beta < - np_pi \<or> np_pi < beta \<longrightarrow>
      run_qaoa np_pi ns g beta gamma
        = (Inl (AssertionError ''beta is not within the range [-pi, pi]''), 0))
 \<and> (- np_pi \<le> beta \<and> beta \<le> np_pi \<and> (gamma < 0 \<or> 2 * np_pi < gamma) \<longrightarrow>
      run_qaoa np_pi ns g beta gamma
        = (Inl (AssertionError ''gamma is not within the range [0, 2*pi]''), 0))
 \<and> (beta < - np_pi \<or> np_pi < beta \<or> gamma < 0 \<or> 2 * np_pi < gamma \<longrightarrow>
      (\<exists>msg. run_qaoa np_pi ns g beta gamma = (Inl (AssertionError msg), 0)))
 \<and> (- np_pi \<le> beta \<and> beta \<le> np_pi \<and> 0 \<le> gamma \<and> gamma \<le> 2 * np_pi \<longrightarrow>
      snd (run_qaoa np_pi ns g beta gamma) = 1
      \<and> run_qaoa np_pi (run_helper_cells body Map.empty) g beta gamma
          = (Inl (TypeError ''Invalid instruction: None''), 1))
 \<and> (0 \<le> np_pi \<longrightarrow>
      snd (run_qaoa np_pi ns g (- np_pi) 0) = 1
      \<and> snd (run_qaoa np_pi ns g (- np_pi) (2 * np_pi)) = 1
      \<and> snd (run_qaoa np_pi ns g np_pi 0) = 1
      \<and> snd (run_qaoa np_pi ns g np_pi (2 * np_pi)) = 1)"
proof (intro conjI impI)
  assume "beta < - np_pi \<or> np_pi < beta"
  then show "run_qaoa np_pi ns g beta gamma
      = (Inl (AssertionError ''beta is not within the range [-pi, pi]''), 0)"
    by (auto simp: run_qaoa_def)
next
  assume "- np_pi \<le> beta \<and> beta \<le> np_pi \<and> (gamma < 0 \<or> 2 * np_pi < gamma)"
  then show "run_qaoa np_pi ns g beta gamma
      = (Inl (AssertionError ''gamma is not within the range [0, 2*pi]''), 0)"
    by (auto simp: run_qaoa_def)
next
  assume "beta < - np_pi \<or> np_pi < beta \<or> gamma < 0 \<or> 2 * np_pi < gamma"
  then show "\<exists>msg. run_qaoa np_pi ns g beta gamma = (Inl (AssertionError msg), 0)"
    by (auto simp: run_qaoa_def)
next
  assume "- np_pi \<le> beta \<and> beta \<le> np_pi \<and> 0 \<le> gamma \<and> gamma \<le> 2 * np_pi"
  then show "snd (run_qaoa np_pi ns g beta gamma) = 1"
    by (simp add: run_qaoa_in_range)
next
  assume "- np_pi \<le> beta \<and> beta \<le> np_pi \<and> 0 \<le> gamma \<and> gamma \<le> 2 * np_pi"
  then show "run_qaoa np_pi (run_helper_cells body Map.empty) g beta gamma
      = (Inl (TypeError ''Invalid instruction: None''), 1)"
    by (simp add: run_qaoa_in_range)
next
  assume "0 \<le> np_pi"
  then show "snd (run_qaoa np_pi ns g (- np_pi) 0) = 1"
    by (simp add: run_qaoa_in_range)
next
  assume "0 \<le> np_pi"
  then show "snd (run_qaoa np_pi ns g (- np_pi) (2 * np_pi)) = 1"
    by (simp add: run_qaoa_in_range)
next
  assume "0 \<le> np_pi"
  then show "snd (run_qaoa np_pi ns g np_pi 0) = 1"
    by (simp add: run_qaoa_in_range)
next
  assume "0 \<le> np_pi"
  then show "snd (run_qaoa np_pi ns g np_pi (2 * np_pi)) = 1"
    by (simp add: run_qaoa_in_range)
qed

theorem run_qaoa_angle_assertions_witness:
  "(pi < (4::real)
     \<and> run_qaoa pi Map.empty \<lparr>nodes = [0, 1], adj = [(0, [(1, 1)]), (1, [(0, 1)])]\<rparr> 4 0
         = (Inl (AssertionError ''beta is not within the range [-pi, pi]''), 0))
 \<and> (- pi \<le> (0::real) \<and> (0::real) \<le> pi \<and> (-1::real) < 0
     \<and> run_qaoa pi Map.empty \<lparr>nodes = [0, 1], adj = [(0, [(1, 1)]), (1, [(0, 1)])]\<rparr> 0 (-1)
         = (Inl (AssertionError ''gamma is not within the range [0, 2*pi]''), 0))
 \<and> (- pi \<le> (0::real) \<and> (0::real) \<le> pi \<and> (0::real) \<le> 2 * pi
     \<and> run_qaoa pi (run_helper_cells (\<lambda>args. Inr PyNone) Map.empty)
           \<lparr>nodes = [0, 1], adj = [(0, [(1, 1)]), (1, [(0, 1)])]\<rparr> 0 0
         = (Inl (TypeError ''Invalid instruction: None''), 1))
 \<and> ((0::real) \<le> pi
     \<and> snd (run_qaoa pi Map.empty \<lparr>nodes = [0, 1], adj = [(0, [(1, 1)]), (1, [(0, 1)])]\<rparr>
              (- pi) (2 * pi)) = 1)"
proof -
  let ?g = "\<lparr>nodes = [0, 1], adj = [(0, [(1, 1)]), (1, [(0, 1)])]\<rparr>"
  have a: "pi < (4::real)" by (rule pi_less_4)
  have b: "(0::real) \<le> pi" by (rule pi_ge_zero)
  have c: "- pi \<le> (0::real)" using b by simp
  have d: "(0::real) \<le> 2 * pi" using b by simp
  have "run_qaoa pi Map.empty ?g 4 0
      = (Inl (AssertionError ''beta is not within the range [-pi, pi]''), 0)"
    using run_qaoa_angle_assertions [of 4 pi Map.empty ?g 0] a by blast
  moreover have "run_qaoa pi Map.empty ?g 0 (-1)
      = (Inl (AssertionError ''gamma is not within the range [0, 2*pi]''), 0)"
    using run_qaoa_angle_assertions [of 0 pi Map.empty ?g "-1"] b c by simp
  moreover have "run_qaoa pi (run_helper_cells (\<lambda>args. Inr PyNone) Map.empty) ?g 0 0
      = (Inl (TypeError ''Invalid instruction: None''), 1)"
    using run_qaoa_angle_assertions [of 0 pi Map.empty ?g 0 "\<lambda>args. Inr PyNone"] b c d
    by simp
  moreover have "snd (run_qaoa pi Map.empty ?g (- pi) (2 * pi)) = 1"
    using run_qaoa_angle_assertions [of 0 pi Map.empty ?g 0] b by blast
  ultimately show ?thesis using a b c d by simp
qed

section \<open>Properties of the Jordan-Wigner transform\<close>

lemma negligible_iff: "negligible c \<longleftrightarrow> cmod c \<le> tolerance"
proof -
  have "0 \<le> tolerance"
    by (simp add: tolerance_def)
  then have "cmod c \<le> tolerance \<longleftrightarrow> (cmod c)\<^sup>2 \<le> tolerance\<^sup>2"
    by (metis abs_le_square_iff abs_norm_cancel abs_of_nonneg)
  then show ?thesis
    by (simp add: negligible_def cmod_power2)
qed

lemma jordan_wigner_factor_create_2:
  "jordan_wigner_factor (2, CREATE) =
     [([(0, PAULI_Z), (1, PAULI_Z), (2, PAULI_X)], 1 / 2),
      ([(0, PAULI_Z), (1, PAULI_Z), (2, PAULI_Y)], - \<i> / 2)]"
  by (simp add: multiply_def add_def prune_def negligible_def simplify_def z_string_def
      tolerance_def upt_rec)

lemma jordan_wigner_factor_annihilate_2:
  "jordan_wigner_factor (2, ANNIHILATE) =
     [([(0, PAULI_Z), (1, PAULI_Z), (2, PAULI_X)], 1 / 2),
      ([(0, PAULI_Z), (1, PAULI_Z), (2, PAULI_Y)], \<i> / 2)]"
  by (simp add: multiply_def add_def prune_def negligible_def simplify_def z_string_def
      tolerance_def upt_rec)

lemma jordan_wigner_factor_annihilate_7:
  "jordan_wigner_factor (7, ANNIHILATE) =
     [([(0, PAULI_Z), (1, PAULI_Z), (2, PAULI_Z), (3, PAULI_Z), (4, PAULI_Z), (5, PAULI_Z),
        (6, PAULI_Z), (7, PAULI_X)], 1 / 2),
      ([(0, PAULI_Z), (1, PAULI_Z), (2, PAULI_Z), (3, PAULI_Z), (4, PAULI_Z), (5, PAULI_Z),
        (6, PAULI_Z), (7, PAULI_Y)], \<i> / 2)]"
  by (simp add: multiply_def add_def prune_def negligible_def simplify_def z_string_def
      tolerance_def upt_rec)

lemma jordan_wigner_factor_create_7:
  "jordan_wigner_factor (7, CREATE) =
     [([(0, PAULI_Z), (1, PAULI_Z), (2, PAULI_Z), (3, PAULI_Z), (4, PAULI_Z), (5, PAULI_Z),
        (6, PAULI_Z), (7, PAULI_X)], 1 / 2),
      ([(0, PAULI_Z), (1, PAULI_Z), (2, PAULI_Z), (3, PAULI_Z), (4, PAULI_Z), (5, PAULI_Z),
        (6, PAULI_Z), (7, PAULI_Y)], - \<i> / 2)]"
  by (simp add: multiply_def add_def prune_def negligible_def simplify_def z_string_def
      tolerance_def upt_rec)

text \<open>
  The three relations that the notebook's exercise asks to verify after the transform,
  \<open>a\<^sub>2 a\<^sub>7 + a\<^sub>7 a\<^sub>2 = 0\<close>, \<open>a\<^sub>2 a\<^sub>7\<^sup>\<dagger> + a\<^sub>7\<^sup>\<dagger> a\<^sub>2 = 0\<close> and \<open>a\<^sub>2 a\<^sub>2\<^sup>\<dagger> + a\<^sub>2\<^sup>\<dagger> a\<^sub>2 = 1\<close>, hold for
  the transform as it is defined here.
\<close>

lemma jordan_wigner_anticommute_2_7:
  "jordan_wigner [([(2, ANNIHILATE), (7, ANNIHILATE)], 1),
                  ([(7, ANNIHILATE), (2, ANNIHILATE)], 1)] = []"
  by (simp add: jordan_wigner_def jordan_wigner_term_def
      jordan_wigner_factor_annihilate_2 jordan_wigner_factor_annihilate_7
      multiply_def add_def prune_def negligible_def simplify_def tolerance_def
      del: jordan_wigner_factor.simps)

lemma jordan_wigner_anticommute_2_7_dagger:
  "jordan_wigner [([(2, ANNIHILATE), (7, CREATE)], 1),
                  ([(7, CREATE), (2, ANNIHILATE)], 1)] = []"
  by (simp add: jordan_wigner_def jordan_wigner_term_def
      jordan_wigner_factor_annihilate_2 jordan_wigner_factor_create_7
      multiply_def add_def prune_def negligible_def simplify_def tolerance_def
      del: jordan_wigner_factor.simps)

lemma jordan_wigner_anticommute_2_2_dagger:
  "jordan_wigner [([(2, ANNIHILATE), (2, CREATE)], 1),
                  ([(2, CREATE), (2, ANNIHILATE)], 1)] = [([], 1)]"
  by (simp add: jordan_wigner_def jordan_wigner_term_def
      jordan_wigner_factor_create_2 jordan_wigner_factor_annihilate_2
      multiply_def add_def prune_def negligible_def simplify_def tolerance_def
      power2_eq_square del: jordan_wigner_factor.simps)

text \<open>
  C3. The Jordan-Wigner transform of the number operator \<open>a\<^sub>2\<^sup>\<dagger> a\<^sub>2\<close> (creation, then
  annihilation, on site 2, coefficient 1) is \<open>\<^sup>1\<^sub>2 (I - Z\<^sub>2)\<close>: the identity term with
  coefficient \<open>1/2\<close> and the term \<open>Z\<^sub>2\<close> with coefficient \<open>-1/2\<close>, and no other entry,
  both as the list of entries and as the mapping from terms to coefficients.
\<close>

theorem jordan_wigner_number_operator:
  "jordan_wigner [([(2, CREATE), (2, ANNIHILATE)], 1)]
     = [([], 1 / 2), ([(2, PAULI_Z)], - 1 / 2)]
   \<and> map_of (jordan_wigner [([(2, CREATE), (2, ANNIHILATE)], 1)])
     = [[] \<mapsto> 1 / 2, [(2, PAULI_Z)] \<mapsto> - 1 / 2]"
proof -
  have "jordan_wigner [([(2, CREATE), (2, ANNIHILATE)], 1)]
      = [([], 1 / 2), ([(2, PAULI_Z)], - 1 / 2)]"
    by (simp add: jordan_wigner_def jordan_wigner_term_def
        jordan_wigner_factor_create_2 jordan_wigner_factor_annihilate_2
        multiply_def add_def prune_def negligible_def simplify_def tolerance_def
        del: jordan_wigner_factor.simps)
  then show ?thesis
    by (simp add: fun_eq_iff)
qed

end
